theory Spec2Isabelle
  imports Complex_Main
begin

section \<open>Magic Session Mixer: one row of the mixer window\<close>

text \<open>
  The program is a single class \<^verbatim>\<open>AppRow(MagicSession, Frame)\<close>: one object per audio
  session, which is at once the session handle (through \<^verbatim>\<open>MagicSession\<close> of pycaw) and
  the display element (a Tk frame holding a slider, a mute button and a status line).
  The callbacks \<^verbatim>\<open>update_volume\<close>, \<^verbatim>\<open>update_mute\<close> and \<^verbatim>\<open>update_state\<close> carry the
  notifications of the audio subsystem to the display; \<^verbatim>\<open>_slide_volume\<close> and
  \<^verbatim>\<open>_toogle_mute\<close> carry the user's commands to the audio subsystem.
\<close>

subsection \<open>Data\<close>

text \<open>
  \<^verbatim>\<open>AudioSessionState\<close> of pycaw. The callback compares its argument with the three
  constants by \<^verbatim>\<open>==\<close>; \<open>Other_state\<close> stands for any value equal to none of them.
\<close>

datatype audio_session_state = Inactive | Active | Expired | Other_state nat

text \<open>The two button texts: U+1F508 (muted) and U+1F50A (unmuted).\<close>

datatype icon = Speaker_low | Speaker_high

text \<open>
  The failures: \<open>TclError\<close> is raised by a Tk call on a destroyed widget, \<open>SessionGone\<close>
  by the session handle when its session is no longer there.
\<close>

datatype error = TclError | SessionGone

text \<open>The commands the audio subsystem accepts, in the order they were issued.\<close>

datatype subsystem_call = Write_volume real | Write_mute bool

text \<open>
  The lines written by \<^verbatim>\<open>print\<close>, one constructor per format string:
  \<^verbatim>\<open>"{app_name} volume: {new_volume}"\<close>, \<^verbatim>\<open>"{app_name} mute: {icon}"\<close>,
  \<^verbatim>\<open>"{app_name} state: {new_state}"\<close>, \<^verbatim>\<open>":: closed session: {app_name}"\<close> and
  \<^verbatim>\<open>"with pycaw: {app_name} volume: {new_volume}"\<close>.
\<close>

datatype out_line =
    Print_volume string real
  | Print_mute string icon
  | Print_state string audio_session_state
  | Print_closed string
  | Print_with_pycaw string real

text \<open>
  An \<^verbatim>\<open>AppRow\<close> after its construction. \<open>volume\<close>, \<open>mute\<close> and \<open>state\<close> are the
  properties inherited from \<^verbatim>\<open>MagicSession\<close>: what the session handle holds of the
  session. \<open>volume_slider_state\<close> is the \<^verbatim>\<open>DoubleVar\<close> of the slider,
  \<open>mute_button_state\<close> the \<^verbatim>\<open>StringVar\<close> of the button, \<open>mute_button_style\<close> and
  \<open>status_line_style\<close> the \<^verbatim>\<open>style\<close> options of the two widgets. \<open>destroyed\<close> says
  that the frame and, with it, its children have been destroyed; the row being handle
  and display element at once, a destroyed row is a session removed from the live set.
  \<open>teardowns\<close> counts the calls of \<^verbatim>\<open>destroy()\<close>, \<open>calls\<close> is the trace of commands
  issued to the audio subsystem and \<open>stdout\<close> the printed lines.
\<close>

record app_row =
  app_name :: string
  volume :: real
  mute :: bool
  state :: audio_session_state
  volume_slider_state :: real
  mute_button_state :: icon
  mute_button_style :: string
  status_line_style :: string
  destroyed :: bool
  teardowns :: nat
  calls :: "subsystem_call list"
  stdout :: "out_line list"

text \<open>
  A method either returns, with the row as it left it, or raises, with the row as it
  was when the exception left the method (what was printed before stays printed).
\<close>

type_synonym result = "(error \<times> app_row) + app_row"

fun row_of :: "result \<Rightarrow> app_row" where
  "row_of (Inl (e, s)) = s"
| "row_of (Inr s) = s"

subsection \<open>Python's floats\<close>

text \<open>
  A Python float is an IEEE 754 binary64 value: a real number of the form \<open>k * 2^e\<close>
  with an integer \<open>k\<close> of at most 53 bits and \<open>e \<ge> -1074\<close>. The result of an arithmetic
  operation is the exact result rounded to the nearest such value, ties going to the
  even \<open>k\<close>. Infinities and NaN are left out: results beyond the largest finite value,
  near \<open>2^1024\<close>, are not cut off here, and volumes and slider positions are far below.
\<close>

definition round_half_even :: "real \<Rightarrow> int" where
  "round_half_even x =
     (let f = \<lfloor>x\<rfloor>; r = x - of_int f
      in if r < 1/2 then f else if 1/2 < r then f + 1 else if even f then f else f + 1)"

text \<open>
  Rounding of a positive number: it is halved or doubled until it lies between \<open>2^52\<close>
  and \<open>2^53\<close> (or the exponent, counted in \<open>e\<close>, has reached the least one, -1074),
  rounded there to an integer, and scaled back.
\<close>

function binary64_pos :: "real \<Rightarrow> int \<Rightarrow> real" where
  "binary64_pos m e =
     (if 2 ^ 53 \<le> m then 2 * binary64_pos (m / 2) (e + 1)
      else if m < 2 ^ 52 \<and> - 1074 < e then binary64_pos (2 * m) (e - 1) / 2
      else of_int (round_half_even m))"
  by pat_completeness auto
termination
proof (relation "(\<lambda>(m, e). if 2 ^ 53 \<le> m then nat \<lfloor>m\<rfloor> else 0) <*mlex*>
                  measure (\<lambda>(m, e). nat (e + 1074))")
  show "wf ((\<lambda>(m, e). if 2 ^ 53 \<le> m then nat \<lfloor>m\<rfloor> else 0) <*mlex*>
                  measure (\<lambda>(m::real, e::int). nat (e + 1074)))"
    by (simp add: wf_mlex)
next
  fix m :: real and e :: int
  assume big: "2 ^ 53 \<le> m"
  have "\<lfloor>m / 2\<rfloor> \<le> \<lfloor>m - 1\<rfloor>" using big by (intro floor_mono) simp
  then have "\<lfloor>m / 2\<rfloor> < \<lfloor>m\<rfloor>" by simp
  moreover have "0 < \<lfloor>m\<rfloor>" using big by simp
  ultimately have "nat \<lfloor>m / 2\<rfloor> < nat \<lfloor>m\<rfloor>" by simp
  then show "((m / 2, e + 1), (m, e)) \<in>
      (\<lambda>(m, e). if 2 ^ 53 \<le> m then nat \<lfloor>m\<rfloor> else 0) <*mlex*>
        measure (\<lambda>(m, e). nat (e + 1074))"
    using big by (simp add: mlex_less)
next
  fix m :: real and e :: int
  assume "\<not> 2 ^ 53 \<le> m" and small: "m < 2 ^ 52 \<and> - 1074 < e"
  then show "((2 * m, e - 1), (m, e)) \<in>
      (\<lambda>(m, e). if 2 ^ 53 \<le> m then nat \<lfloor>m\<rfloor> else 0) <*mlex*>
        measure (\<lambda>(m, e). nat (e + 1074))"
    by (auto simp: mlex_iff)
qed

declare binary64_pos.simps [simp del]

definition binary64 :: "real \<Rightarrow> real" where
  "binary64 x =
     (if x = 0 then 0 else if x < 0 then - binary64_pos (- x) 0 else binary64_pos x 0)"

text \<open>Python's \<^verbatim>\<open>a * b\<close> and \<^verbatim>\<open>a / b\<close> on floats (\<open>b\<close> is 100 throughout).\<close>

definition float_mul :: "real \<Rightarrow> real \<Rightarrow> real" where
  "float_mul a b = binary64 (a * b)"

definition float_div :: "real \<Rightarrow> real \<Rightarrow> real" where
  "float_div a b = binary64 (a / b)"

subsection \<open>The Tk widgets\<close>

text \<open>
  \<^verbatim>\<open>widget.configure(style=...)\<close> calls the Tcl command of the widget, which no longer
  exists once the widget is destroyed: tkinter raises \<^verbatim>\<open>TclError\<close>. The mute button and
  the status line are children of the row, destroyed with it.
\<close>

definition mute_button_configure :: "string \<Rightarrow> app_row \<Rightarrow> result" where
  "mute_button_configure style s =
     (if destroyed s then Inl (TclError, s) else Inr (s\<lparr>mute_button_style := style\<rparr>))"

definition status_line_configure :: "string \<Rightarrow> app_row \<Rightarrow> result" where
  "status_line_configure style s =
     (if destroyed s then Inl (TclError, s) else Inr (s\<lparr>status_line_style := style\<rparr>))"

text \<open>
  \<^verbatim>\<open>self.destroy()\<close> of \<^verbatim>\<open>BaseWidget\<close>: destroys the children and the widget. Every
  call is counted.
\<close>

definition destroy :: "app_row \<Rightarrow> app_row" where
  "destroy s = s\<lparr>destroyed := True, teardowns := Suc (teardowns s)\<rparr>"

definition print :: "out_line \<Rightarrow> app_row \<Rightarrow> app_row" where
  "print l s = s\<lparr>stdout := stdout s @ [l]\<rparr>"

subsection \<open>The session handle\<close>

text \<open>
  Modelled from the spec: the getter of the property \<^verbatim>\<open>MagicSession.volume\<close> (pycaw, not
  part of the source file). The spec reads the current volume from the handle in the
  registry and fails with \<^verbatim>\<open>SessionGone\<close> for a session that is not there.
\<close>

definition get_volume :: "app_row \<Rightarrow> error + real" where
  "get_volume s = (if destroyed s then Inl SessionGone else Inr (volume s))"

text \<open>
  Modelled from the spec: the setter of the property \<^verbatim>\<open>MagicSession.volume\<close> (pycaw, not
  part of the source file). The spec's audio subsystem accepts \<^verbatim>\<open>write_volume(identity,
  value)\<close>: the write is recorded in the trace and becomes the session's volume. For a
  session that is gone it fails with \<^verbatim>\<open>SessionGone\<close> and performs no subsystem call.
\<close>

definition set_volume :: "real \<Rightarrow> app_row \<Rightarrow> result" where
  "set_volume v s =
     (if destroyed s then Inl (SessionGone, s)
      else Inr (s\<lparr>volume := v, calls := calls s @ [Write_volume v]\<rparr>))"

text \<open>
  Modelled from the spec: \<^verbatim>\<open>MagicSession.toggle_mute\<close> (pycaw, not part of the source
  file). It reads the current \<open>mute\<close>, issues the inverted value to the audio subsystem
  and returns the new value; for a session that is gone it fails with \<^verbatim>\<open>SessionGone\<close>
  and performs no subsystem call.
\<close>

definition toggle_mute :: "app_row \<Rightarrow> (error \<times> app_row) + (bool \<times> app_row)" where
  "toggle_mute s =
     (if destroyed s then Inl (SessionGone, s)
      else (let new_mute = \<not> mute s
            in Inr (new_mute, s\<lparr>mute := new_mute, calls := calls s @ [Write_mute new_mute]\<rparr>)))"

subsection \<open>Notifications: from the audio subsystem to the display\<close>

text \<open>\<^verbatim>\<open>AppRow.update_volume\<close>: prints, then sets the slider's variable.\<close>

definition update_volume :: "real \<Rightarrow> app_row \<Rightarrow> app_row" where
  "update_volume new_volume s =
     (print (Print_volume (app_name s) new_volume) s)
       \<lparr>volume_slider_state := float_mul new_volume 100\<rparr>"

text \<open>
  \<^verbatim>\<open>AppRow.update_mute\<close>: chooses the icon and configures the button's style, then prints
  and sets the button's text variable.
\<close>

definition update_mute :: "bool \<Rightarrow> app_row \<Rightarrow> result" where
  "update_mute new_mute s =
     (let icon = (if new_mute then Speaker_low else Speaker_high);
          style = (if new_mute then ''Muted.TButton'' else ''Unmuted.TButton'')
      in case mute_button_configure style s of
           Inl e \<Rightarrow> Inl e
         | Inr s1 \<Rightarrow> Inr ((print (Print_mute (app_name s1) icon) s1)\<lparr>mute_button_state := icon\<rparr>))"

text \<open>
  \<^verbatim>\<open>AppRow.update_state\<close>: prints the state, then the \<^verbatim>\<open>if\<close>/\<^verbatim>\<open>elif\<close> chain in the
  source's order. There is no \<^verbatim>\<open>else\<close>: any other value falls through.
\<close>

definition update_state :: "audio_session_state \<Rightarrow> app_row \<Rightarrow> result" where
  "update_state new_state s =
     (let s0 = print (Print_state (app_name s) new_state) s
      in if new_state = Inactive then status_line_configure ''Inactive.TFrame'' s0
         else if new_state = Active then status_line_configure ''Active.TFrame'' s0
         else if new_state = Expired then
           (case status_line_configure ''TFrame'' s0 of
              Inl e \<Rightarrow> Inl e
            | Inr s1 \<Rightarrow> Inr (destroy (print (Print_closed (app_name s1)) s1)))
         else Inr s0)"

subsection \<open>Commands: from the user to the audio subsystem\<close>

text \<open>
  \<^verbatim>\<open>AppRow._slide_volume\<close>. The slider hands over its position, which
  \<^verbatim>\<open>float(value)\<close> reads; the model starts from the number read. The comparison reads
  \<^verbatim>\<open>self.volume\<close>, the assignment writes it.
\<close>

definition slide_volume :: "real \<Rightarrow> app_row \<Rightarrow> result" where
  "slide_volume val s =
     (let new_volume = float_div val 100
      in case get_volume s of
           Inl e \<Rightarrow> Inl (e, s)
         | Inr current \<Rightarrow>
             if current \<noteq> new_volume
             then set_volume new_volume (print (Print_with_pycaw (app_name s) new_volume) s)
             else Inr s)"

text \<open>\<^verbatim>\<open>AppRow._toogle_mute\<close>.\<close>

definition toogle_mute :: "app_row \<Rightarrow> result" where
  "toogle_mute s =
     (case toggle_mute s of
        Inl e \<Rightarrow> Inl e
      | Inr (new_mute, s1) \<Rightarrow> update_mute new_mute s1)"

subsection \<open>The delivery of notifications\<close>

text \<open>
  Modelled from the spec: the delivery of a notification to the row, which is pycaw's
  (\<^verbatim>\<open>MagicSession\<close> receives the events of the audio subsystem and calls the
  \<^verbatim>\<open>volume_callback\<close>, \<^verbatim>\<open>mute_callback\<close> and \<^verbatim>\<open>state_callback\<close> that the constructor
  of \<^verbatim>\<open>AppRow\<close> registered) and not part of the source file. Following the spec's
  notification router, an event for a session that has been removed is dropped and is
  no error; otherwise the handle takes the payload and the callback is called with it.
\<close>

datatype event = Volume_changed real | Mute_changed bool | State_changed audio_session_state

fun dispatch :: "event \<Rightarrow> app_row \<Rightarrow> result" where
  "dispatch (Volume_changed v) s =
     (if destroyed s then Inr s else Inr (update_volume v (s\<lparr>volume := v\<rparr>)))"
| "dispatch (Mute_changed m) s =
     (if destroyed s then Inr s else update_mute m (s\<lparr>mute := m\<rparr>))"
| "dispatch (State_changed st) s =
     (if destroyed s then Inr s else update_state st (s\<lparr>state := st\<rparr>))"

text \<open>
  Modelled from the spec: notifications are applied one after the other, in the order
  of their delivery. Each is a call of its own: an exception would end that call only,
  and the next notification meets the row as the failed call left it. \<open>run\<close> returns
  the exceptions raised on the way and the final row.
\<close>

fun run :: "event list \<Rightarrow> app_row \<Rightarrow> error list \<times> app_row" where
  "run [] s = ([], s)"
| "run (e # es) s =
     (case dispatch e s of
        Inr s1 \<Rightarrow> run es s1
      | Inl (err, s1) \<Rightarrow> (case run es s1 of (errs, t) \<Rightarrow> (err # errs, t)))"

text \<open>The payload of the last notification of each kind, if there is one.\<close>

fun last_volume :: "event list \<Rightarrow> real option" where
  "last_volume [] = None"
| "last_volume (Volume_changed v # es) =
     (case last_volume es of None \<Rightarrow> Some v | Some w \<Rightarrow> Some w)"
| "last_volume (e # es) = last_volume es"

fun last_mute :: "event list \<Rightarrow> bool option" where
  "last_mute [] = None"
| "last_mute (Mute_changed m # es) =
     (case last_mute es of None \<Rightarrow> Some m | Some w \<Rightarrow> Some w)"
| "last_mute (e # es) = last_mute es"

fun is_volume_or_mute :: "event \<Rightarrow> bool" where
  "is_volume_or_mute (Volume_changed v) = True"
| "is_volume_or_mute (Mute_changed m) = True"
| "is_volume_or_mute (State_changed st) = False"

subsection \<open>Concrete rows and predicates used in the statements\<close>

text \<open>A row used as the concrete input of the examples below.\<close>

definition example_row :: app_row where
  "example_row =
     \<lparr>app_name = ''app.exe'', volume = 1/2, mute = False, state = Active,
      volume_slider_state = 50,
      mute_button_state = Speaker_high, mute_button_style = ''Unmuted.TButton'',
      status_line_style = ''Active.TFrame'', destroyed = False, teardowns = 0,
      calls = [], stdout = []\<rparr>"

text \<open>The row that \<open>example_row\<close> becomes when its session expires.\<close>

definition expired_row :: app_row where
  "expired_row =
     \<lparr>app_name = ''app.exe'', volume = 1/2, mute = False, state = Expired,
      volume_slider_state = 50,
      mute_button_state = Speaker_high, mute_button_style = ''Unmuted.TButton'',
      status_line_style = ''TFrame'', destroyed = True, teardowns = 1,
      calls = [],
      stdout = [Print_state ''app.exe'' Expired, Print_closed ''app.exe'']\<rparr>"

text \<open>A command to the audio subsystem carries a volume only from the interval [0, 1].\<close>

fun in_unit_range :: "subsystem_call \<Rightarrow> bool" where
  "in_unit_range (Write_volume w) = (0 \<le> w \<and> w \<le> 1)"
| "in_unit_range (Write_mute m) = True"

section \<open>Auxiliary facts\<close>

subsection \<open>Rounding\<close>

lemmas float_eval = float_mul_def float_div_def binary64_def binary64_pos.simps
  round_half_even_def

lemma round_half_even_le:
  assumes "x \<le> of_int B"
  shows "round_half_even x \<le> B"
proof (cases "x = of_int B")
  case True
  then show ?thesis by (simp add: round_half_even_def)
next
  case False
  with assms have "x < of_int B" by simp
  then have "\<lfloor>x\<rfloor> < B" by (simp add: floor_less_iff)
  then show ?thesis by (simp add: round_half_even_def Let_def)
qed

lemma round_half_even_nonneg:
  assumes "0 \<le> x"
  shows "0 \<le> round_half_even x"
proof -
  have "0 \<le> \<lfloor>x\<rfloor>" using assms by simp
  then show ?thesis by (simp add: round_half_even_def Let_def)
qed

text \<open>Rounding does not cross an integer: below \<open>2^53\<close> every integer is a binary64 value.\<close>

lemma binary64_pos_le:
  "m < 2 ^ 53 \<Longrightarrow> m \<le> of_int B \<Longrightarrow> binary64_pos m e \<le> of_int B"
proof (induction m e arbitrary: B rule: binary64_pos.induct)
  case (1 m e)
  show ?case
  proof (cases "m < 2 ^ 52 \<and> - 1074 < e")
    case True
    have "2 * m < 2 ^ 53" using True by simp
    moreover have "2 * m \<le> of_int (2 * B)" using "1.prems"(2) by simp
    moreover have "\<not> 2 ^ 53 \<le> m" using "1.prems"(1) by simp
    ultimately have "binary64_pos (2 * m) (e - 1) \<le> of_int (2 * B)"
      using True by (intro "1.IH"(2)) auto
    then show ?thesis
      using True "1.prems"(1) by (subst binary64_pos.simps) simp
  next
    case False
    have "round_half_even m \<le> B" using "1.prems"(2) by (rule round_half_even_le)
    then have "(of_int (round_half_even m) :: real) \<le> of_int B" by simp
    then show ?thesis
      using False "1.prems"(1) by (subst binary64_pos.simps) auto
  qed
qed

lemma binary64_pos_nonneg:
  "0 \<le> m \<Longrightarrow> 0 \<le> binary64_pos m e"
proof (induction m e rule: binary64_pos.induct)
  case (1 m e)
  show ?case
  proof (cases "2 ^ 53 \<le> m")
    case True
    then have "0 \<le> binary64_pos (m / 2) (e + 1)" using "1.prems" by (intro "1.IH"(1)) auto
    then show ?thesis using True by (subst binary64_pos.simps) simp
  next
    case big: False
    show ?thesis
    proof (cases "m < 2 ^ 52 \<and> - 1074 < e")
      case True
      then have "0 \<le> binary64_pos (2 * m) (e - 1)"
        using big "1.prems" by (intro "1.IH"(2)) auto
      then show ?thesis using True big by (subst binary64_pos.simps) simp
    next
      case False
      have "0 \<le> round_half_even m" using "1.prems" by (rule round_half_even_nonneg)
      then show ?thesis using False big by (subst binary64_pos.simps) auto
    qed
  qed
qed

lemma binary64_unit:
  assumes "0 \<le> x" and "x \<le> 1"
  shows "0 \<le> binary64 x \<and> binary64 x \<le> 1"
proof (cases "x = 0")
  case True
  then show ?thesis by (simp add: binary64_def)
next
  case False
  with assms have pos: "0 < x" by simp
  have "x < 2 ^ 53" using assms(2) by simp
  moreover have "x \<le> of_int 1" using assms(2) by simp
  ultimately have "binary64_pos x 0 \<le> of_int 1" by (rule binary64_pos_le)
  moreover have "0 \<le> binary64_pos x 0" using assms(1) by (rule binary64_pos_nonneg)
  ultimately show ?thesis using pos by (simp add: binary64_def)
qed

lemma float_div_unit:
  assumes "0 \<le> val" and "val \<le> 100"
  shows "0 \<le> float_div val 100 \<and> float_div val 100 \<le> 1"
  unfolding float_div_def using assms by (intro binary64_unit) simp_all

subsection \<open>The methods, case by case\<close>

lemmas row_defs = print_def destroy_def get_volume_def set_volume_def toggle_mute_def
  mute_button_configure_def status_line_configure_def Let_def

lemma update_mute_live:
  "\<not> destroyed s \<Longrightarrow>
   update_mute m s =
     Inr (s\<lparr>mute_button_style := (if m then ''Muted.TButton'' else ''Unmuted.TButton''),
            stdout := stdout s @ [Print_mute (app_name s) (if m then Speaker_low else Speaker_high)],
            mute_button_state := (if m then Speaker_low else Speaker_high)\<rparr>)"
  by (simp add: update_mute_def mute_button_configure_def print_def)

lemma update_state_Expired_live:
  "\<not> destroyed s \<Longrightarrow>
   update_state Expired s =
     Inr (s\<lparr>stdout := stdout s @ [Print_state (app_name s) Expired, Print_closed (app_name s)],
            status_line_style := ''TFrame'', destroyed := True,
            teardowns := Suc (teardowns s)\<rparr>)"
  by (simp add: update_state_def status_line_configure_def print_def destroy_def)

lemma slide_volume_gone: "destroyed s \<Longrightarrow> slide_volume val s = Inl (SessionGone, s)"
  by (simp add: slide_volume_def get_volume_def)

lemma slide_volume_live:
  "\<not> destroyed s \<Longrightarrow>
   slide_volume val s =
     (if volume s \<noteq> float_div val 100
      then Inr (s\<lparr>stdout := stdout s @ [Print_with_pycaw (app_name s) (float_div val 100)],
                  volume := float_div val 100,
                  calls := calls s @ [Write_volume (float_div val 100)]\<rparr>)
      else Inr s)"
  by (simp add: slide_volume_def get_volume_def set_volume_def print_def Let_def)

lemma slide_volume_calls:
  "calls (row_of (slide_volume val s)) =
     calls s @ (if \<not> destroyed s \<and> volume s \<noteq> float_div val 100
                then [Write_volume (float_div val 100)] else [])"
  by (cases "destroyed s") (simp_all add: slide_volume_gone slide_volume_live)

subsection \<open>The delivery\<close>

text \<open>A notification for a row that has been removed changes nothing and raises nothing.\<close>

lemma dispatch_destroyed: "destroyed s \<Longrightarrow> dispatch e s = Inr s"
  by (cases e) simp_all

lemma run_destroyed: "destroyed s \<Longrightarrow> run es s = ([], s)"
  by (induction es) (simp_all add: dispatch_destroyed)

lemma run_Expired_live:
  "\<not> destroyed s \<Longrightarrow>
   run [State_changed Expired] s =
     ([], s\<lparr>state := Expired,
            stdout := stdout s @ [Print_state (app_name s) Expired, Print_closed (app_name s)],
            status_line_style := ''TFrame'', destroyed := True,
            teardowns := Suc (teardowns s)\<rparr>)"
  by (simp add: update_state_Expired_live)

text \<open>On a live row a volume or mute notification returns and leaves the row live.\<close>

lemma dispatch_live_volume_or_mute:
  assumes "\<not> destroyed s" and "is_volume_or_mute e"
  shows "\<exists>t. dispatch e s = Inr t \<and> \<not> destroyed t \<and>
     volume t = (case e of Volume_changed v \<Rightarrow> v | _ \<Rightarrow> volume s) \<and>
     mute t = (case e of Mute_changed m \<Rightarrow> m | _ \<Rightarrow> mute s) \<and>
     volume_slider_state t =
       (case e of Volume_changed v \<Rightarrow> float_mul v 100 | _ \<Rightarrow> volume_slider_state s) \<and>
     mute_button_state t =
       (case e of Mute_changed m \<Rightarrow> (if m then Speaker_low else Speaker_high)
        | _ \<Rightarrow> mute_button_state s) \<and>
     mute_button_style t =
       (case e of Mute_changed m \<Rightarrow> (if m then ''Muted.TButton'' else ''Unmuted.TButton'')
        | _ \<Rightarrow> mute_button_style s)"
proof (cases e)
  case (Volume_changed v)
  with assms show ?thesis by (simp add: update_volume_def print_def)
next
  case (Mute_changed m)
  with assms show ?thesis by (simp add: update_mute_live)
next
  case (State_changed st)
  with assms show ?thesis by simp
qed

section \<open>Properties\<close>

subsection \<open>C1: expiry is final\<close>

text \<open>
  C1. Once the notification of the state Expired has been processed on a live row, the
  session is gone for good: the row has been torn down, exactly once, and its state is
  Expired; whatever notifications follow, none of them changes the row in any way
  (not the handle, not a widget, not the output) and none of them raises.
\<close>

theorem expired_is_final:
  assumes "\<not> destroyed s"
  shows "run (State_changed Expired # es) s = run [State_changed Expired] s \<and>
     fst (run [State_changed Expired] s) = [] \<and>
     destroyed (snd (run [State_changed Expired] s)) \<and>
     state (snd (run [State_changed Expired] s)) = Expired \<and>
     teardowns (snd (run [State_changed Expired] s)) = Suc (teardowns s) \<and>
     calls (snd (run [State_changed Expired] s)) = calls s"
proof -
  let ?s1 = "s\<lparr>state := Expired,
            stdout := stdout s @ [Print_state (app_name s) Expired, Print_closed (app_name s)],
            status_line_style := ''TFrame'', destroyed := True,
            teardowns := Suc (teardowns s)\<rparr>"
  have one: "run [State_changed Expired] s = ([], ?s1)"
    using assms by (rule run_Expired_live)
  have step: "dispatch (State_changed Expired) s = Inr ?s1"
    using assms by (simp add: update_state_Expired_live)
  have "destroyed ?s1" by simp
  then have later: "run es ?s1 = ([], ?s1)" by (rule run_destroyed)
  have all: "run (State_changed Expired # es) s = ([], ?s1)"
    using step later by simp
  show ?thesis
    unfolding all one by simp
qed

theorem expired_is_final_witness:
  "\<not> destroyed example_row \<and>
   run [State_changed Expired, Volume_changed (1/4), Mute_changed True, State_changed Active,
        State_changed Expired] example_row = ([], expired_row) \<and>
   run [State_changed Expired] example_row = ([], expired_row)"
  using expired_is_final [of example_row "[Volume_changed (1/4), Mute_changed True,
        State_changed Active, State_changed Expired]"]
  by (simp add: example_row_def expired_row_def update_state_def row_defs)

subsection \<open>C2: the last notification wins\<close>

text \<open>
  C2. For a live row and every sequence of volume and mute notifications, every
  notification returns, and afterwards the session's stored volume and mute flag are
  the payloads of the last notification of each kind, whatever was delivered before
  them. The row shows the same: the slider's variable is the last volume times 100,
  the button's icon and style are those of the last mute flag. Where no notification
  of a kind was delivered, the value is what it was before.
\<close>

theorem last_notification_wins:
  assumes "\<not> destroyed s" and "list_all is_volume_or_mute es"
  shows "fst (run es s) = [] \<and>
     volume (snd (run es s)) = (case last_volume es of None \<Rightarrow> volume s | Some v \<Rightarrow> v) \<and>
     mute (snd (run es s)) = (case last_mute es of None \<Rightarrow> mute s | Some m \<Rightarrow> m) \<and>
     volume_slider_state (snd (run es s)) =
       (case last_volume es of None \<Rightarrow> volume_slider_state s | Some v \<Rightarrow> float_mul v 100) \<and>
     mute_button_state (snd (run es s)) =
       (case last_mute es of None \<Rightarrow> mute_button_state s
        | Some m \<Rightarrow> (if m then Speaker_low else Speaker_high)) \<and>
     mute_button_style (snd (run es s)) =
       (case last_mute es of None \<Rightarrow> mute_button_style s
        | Some m \<Rightarrow> (if m then ''Muted.TButton'' else ''Unmuted.TButton''))"
  using assms
proof (induction es arbitrary: s)
  case Nil
  then show ?case by simp
next
  case (Cons e es)
  from Cons.prems have live: "\<not> destroyed s" and e: "is_volume_or_mute e"
    and es: "list_all is_volume_or_mute es"
    by simp_all
  from dispatch_live_volume_or_mute [OF live e] obtain t where
    t: "dispatch e s = Inr t" "\<not> destroyed t"
      "volume t = (case e of Volume_changed v \<Rightarrow> v | _ \<Rightarrow> volume s)"
      "mute t = (case e of Mute_changed m \<Rightarrow> m | _ \<Rightarrow> mute s)"
      "volume_slider_state t =
         (case e of Volume_changed v \<Rightarrow> float_mul v 100 | _ \<Rightarrow> volume_slider_state s)"
      "mute_button_state t =
         (case e of Mute_changed m \<Rightarrow> (if m then Speaker_low else Speaker_high)
          | _ \<Rightarrow> mute_button_state s)"
      "mute_button_style t =
         (case e of Mute_changed m \<Rightarrow> (if m then ''Muted.TButton'' else ''Unmuted.TButton'')
          | _ \<Rightarrow> mute_button_style s)"
    by blast
  have run_eq: "run (e # es) s = run es t" by (simp add: t(1))
  note IH = Cons.IH [OF t(2) es]
  show ?case
  proof (cases e)
    case (Volume_changed v)
    with IH t show ?thesis by (simp add: run_eq split: option.splits)
  next
    case (Mute_changed m)
    with IH t show ?thesis by (simp add: run_eq split: option.splits)
  next
    case (State_changed st)
    with e show ?thesis by simp
  qed
qed

text \<open>
  The example: the volumes 0.40 and then 0.42, as binary64 values, with a mute
  notification between them.
\<close>

theorem last_notification_wins_witness:
  "\<not> destroyed example_row \<and>
   list_all is_volume_or_mute
     [Volume_changed (3602879701896397 / 9007199254740992), Mute_changed True,
      Volume_changed (7566047373982433 / 18014398509481984)] \<and>
   fst (run [Volume_changed (3602879701896397 / 9007199254740992), Mute_changed True,
             Volume_changed (7566047373982433 / 18014398509481984)] example_row) = [] \<and>
   volume (snd (run [Volume_changed (3602879701896397 / 9007199254740992), Mute_changed True,
             Volume_changed (7566047373982433 / 18014398509481984)] example_row)) =
     7566047373982433 / 18014398509481984 \<and>
   mute (snd (run [Volume_changed (3602879701896397 / 9007199254740992), Mute_changed True,
             Volume_changed (7566047373982433 / 18014398509481984)] example_row)) \<and>
   volume_slider_state
     (snd (run [Volume_changed (3602879701896397 / 9007199254740992), Mute_changed True,
             Volume_changed (7566047373982433 / 18014398509481984)] example_row)) = 42 \<and>
   mute_button_state
     (snd (run [Volume_changed (3602879701896397 / 9007199254740992), Mute_changed True,
             Volume_changed (7566047373982433 / 18014398509481984)] example_row)) =
     Speaker_low"
proof -
  have slider: "float_mul (7566047373982433 / 18014398509481984) 100 = 42"
    by (simp add: float_eval)
  show ?thesis
    using last_notification_wins [of example_row
      "[Volume_changed (3602879701896397 / 9007199254740992), Mute_changed True,
        Volume_changed (7566047373982433 / 18014398509481984)]"]
    by (simp add: example_row_def slider)
qed

subsection \<open>C3: a volume notification writes nothing back\<close>

text \<open>
  C3. Handling a volume notification issues no command to the audio subsystem: the
  trace of subsystem calls after \<open>update_volume\<close> is the trace before it, for every
  payload and every row, and the session's own volume and mute are not written.
\<close>

theorem update_volume_no_write:
  "calls (update_volume v s) = calls s \<and>
   volume (update_volume v s) = volume s \<and>
   mute (update_volume v s) = mute s"
  by (simp add: update_volume_def print_def)

subsection \<open>C4: commands for a session that is gone\<close>



subsection \<open>C5: sliding to the current volume\<close>

text \<open>
  C5. When the requested position, divided by 100, equals the session's volume,
  \<open>slide_volume\<close> does nothing: the row, with its trace of subsystem calls, is unchanged.
  On a live row the method returns (for a session that is gone it fails, as every
  command does). The comparison of the code is plain equality.
\<close>

theorem slide_volume_noop:
  "float_div val 100 = volume s \<Longrightarrow>
   slide_volume val s = (if destroyed s then Inl (SessionGone, s) else Inr s) \<and>
   row_of (slide_volume val s) = s"
  by (simp add: slide_volume_def get_volume_def)

theorem slide_volume_noop_witness:
  "float_div 50 100 = volume example_row \<and>
   slide_volume 50 example_row = Inr example_row \<and>
   row_of (slide_volume 50 example_row) = example_row"
proof -
  have half: "float_div 50 100 = 1/2"
    by (simp add: float_eval)
  show ?thesis
    using slide_volume_noop [of 50 example_row] by (simp add: example_row_def half)
qed

subsection \<open>C6: the range of the written volume\<close>

text \<open>
  C6, as the code has it. \<open>slide_volume\<close> does not clamp: for every position it hands
  the position divided by 100 to the audio subsystem as it is, whenever that differs
  from the volume of the live session. For a position within the slider's own range,
  from 0 to 100, the written value lies in [0, 1]: if every volume written before lay
  in that interval, so does every volume written afterwards.
\<close>

theorem slide_volume_unclamped:
  "calls (row_of (slide_volume val s)) =
     calls s @ (if \<not> destroyed s \<and> volume s \<noteq> float_div val 100
                then [Write_volume (float_div val 100)] else []) \<and>
   (0 \<le> val \<and> val \<le> 100 \<longrightarrow> 0 \<le> float_div val 100 \<and> float_div val 100 \<le> 1) \<and>
   (0 \<le> val \<and> val \<le> 100 \<and> list_all in_unit_range (calls s) \<longrightarrow>
      list_all in_unit_range (calls (row_of (slide_volume val s))))"
  using float_div_unit [of val] by (simp add: slide_volume_calls)

theorem slide_volume_unclamped_witness:
  "(0::real) \<le> 73 \<and> (73::real) \<le> 100 \<and> list_all in_unit_range (calls example_row) \<and>
   calls (row_of (slide_volume 73 example_row)) =
     [Write_volume (1643813863990231 / 2251799813685248)] \<and>
   list_all in_unit_range (calls (row_of (slide_volume 73 example_row)))"
proof -
  have q: "float_div 73 100 = 1643813863990231 / 2251799813685248"
    by (simp add: float_eval)
  show ?thesis
    using slide_volume_unclamped [of 73 example_row] by (simp add: example_row_def q)
qed

text \<open>
  C6 as stated fails: a position of 150 writes the volume 1.5, outside [0, 1].
\<close>

theorem slide_volume_out_of_range:
  "calls (row_of (slide_volume 150 example_row)) = [Write_volume (3/2)] \<and>
   \<not> in_unit_range (Write_volume (3/2))"
proof -
  have q: "float_div 150 100 = 3/2"
    by (simp add: float_eval)
  show ?thesis
    by (simp add: slide_volume_def row_defs example_row_def q)
qed

subsection \<open>C7: a duplicate expiry\<close>

text \<open>
  C7. The removal of a session is idempotent: two notifications of the state Expired
  in a row raise nothing and leave the row as one of them leaves it. The display is
  torn down once when the row was live, and not at all when it was gone already.
\<close>

theorem duplicate_expired:
  "run [State_changed Expired, State_changed Expired] s = run [State_changed Expired] s \<and>
   fst (run [State_changed Expired, State_changed Expired] s) = [] \<and>
   destroyed (snd (run [State_changed Expired, State_changed Expired] s)) \<and>
   teardowns (snd (run [State_changed Expired, State_changed Expired] s)) =
     (if destroyed s then teardowns s else Suc (teardowns s))"
proof (cases "destroyed s")
  case True
  then show ?thesis by (simp add: run_destroyed)
next
  case False
  let ?s1 = "s\<lparr>state := Expired,
            stdout := stdout s @ [Print_state (app_name s) Expired, Print_closed (app_name s)],
            status_line_style := ''TFrame'', destroyed := True,
            teardowns := Suc (teardowns s)\<rparr>"
  have one: "run [State_changed Expired] s = ([], ?s1)"
    using False by (rule run_Expired_live)
  have step: "dispatch (State_changed Expired) s = Inr ?s1"
    using False by (simp add: update_state_Expired_live)
  have "destroyed ?s1" by simp
  then have "run [State_changed Expired] ?s1 = ([], ?s1)" by (rule run_destroyed)
  then have two: "run [State_changed Expired, State_changed Expired] s = ([], ?s1)"
    using step by simp
  show ?thesis
    unfolding two one using False by simp
qed

theorem duplicate_expired_witness:
  "run [State_changed Expired, State_changed Expired] example_row = ([], expired_row) \<and>
   run [State_changed Expired] example_row = ([], expired_row) \<and>
   teardowns expired_row = 1 \<and>
   run [State_changed Expired, State_changed Expired] expired_row = ([], expired_row)"
  using duplicate_expired [of example_row] duplicate_expired [of expired_row]
  by (simp add: example_row_def expired_row_def update_state_def row_defs)

subsection \<open>C8: the mute button\<close>

text \<open>
  C8. On a live row \<open>toogle_mute\<close> returns; \<open>toggle_mute\<close> hands back the inverse of the
  current mute flag, exactly that value is issued to the audio subsystem, and the button
  at once takes the style and the icon of the new value.
\<close>

theorem toogle_mute_inverts:
  assumes "\<not> destroyed s"
  shows "toggle_mute s =
       Inr (\<not> mute s, s\<lparr>mute := \<not> mute s, calls := calls s @ [Write_mute (\<not> mute s)]\<rparr>) \<and>
     toogle_mute s =
       Inr (s\<lparr>mute := \<not> mute s,
              calls := calls s @ [Write_mute (\<not> mute s)],
              mute_button_style := (if \<not> mute s then ''Muted.TButton'' else ''Unmuted.TButton''),
              stdout := stdout s @
                [Print_mute (app_name s) (if \<not> mute s then Speaker_low else Speaker_high)],
              mute_button_state := (if \<not> mute s then Speaker_low else Speaker_high)\<rparr>)"
  using assms by (simp add: toogle_mute_def toggle_mute_def update_mute_live Let_def)

theorem toogle_mute_inverts_witness:
  "\<not> destroyed example_row \<and>
   toogle_mute example_row =
     Inr (example_row\<lparr>mute := True, calls := [Write_mute True],
            mute_button_style := ''Muted.TButton'',
            stdout := [Print_mute ''app.exe'' Speaker_low],
            mute_button_state := Speaker_low\<rparr>)"
  using toogle_mute_inverts [of example_row] by (simp add: example_row_def)

subsection \<open>C9: any other state\<close>

text \<open>
  C9. For a state that is none of Inactive, Active and Expired, \<open>update_state\<close> returns
  and leaves the row as it was, apart from the line it prints: no widget is configured
  and nothing is torn down.
\<close>

theorem update_state_other:
  "st \<noteq> Inactive \<Longrightarrow> st \<noteq> Active \<Longrightarrow> st \<noteq> Expired \<Longrightarrow>
   update_state st s = Inr (s\<lparr>stdout := stdout s @ [Print_state (app_name s) st]\<rparr>)"
  by (simp add: update_state_def print_def)

theorem update_state_other_witness:
  "Other_state 3 \<noteq> Inactive \<and> Other_state 3 \<noteq> Active \<and> Other_state 3 \<noteq> Expired \<and>
   update_state (Other_state 3) example_row =
     Inr (example_row\<lparr>stdout := [Print_state ''app.exe'' (Other_state 3)]\<rparr>)"
  using update_state_other [of "Other_state 3" example_row] by (simp add: example_row_def)

subsection \<open>C10: position and volume\<close>

text \<open>
  C10, as the code has it. Position and volume are related by the factor 100 in both
  directions, each computed in binary64 arithmetic: a volume notification with the
  payload \<open>v\<close> sets the slider's variable to the rounded product of \<open>v\<close> and 100, and a
  slide to the position \<open>p\<close> on a live row requests the rounded quotient of \<open>p\<close> and 100
  (and writes it when it differs from the session's volume). A slide to the position
  that a volume \<open>v\<close> produced requests exactly \<open>v\<close> again whenever \<open>v\<close> is a binary64
  value whose product with 100 is a binary64 value too, so that the multiplication
  loses nothing.
\<close>

theorem volume_round_trip:
  "volume_slider_state (update_volume v s) = float_mul v 100 \<and>
   (\<not> destroyed s \<and> volume s \<noteq> float_div p 100 \<longrightarrow>
      calls (row_of (slide_volume p s)) = calls s @ [Write_volume (float_div p 100)]) \<and>
   (binary64 v = v \<and> binary64 (v * 100) = v * 100 \<longrightarrow>
      float_div (volume_slider_state (update_volume v s)) 100 = v)"
proof -
  have "float_div (float_mul v 100) 100 = v"
    if "binary64 v = v" and "binary64 (v * 100) = v * 100"
    using that by (simp add: float_div_def float_mul_def)
  then show ?thesis
    by (simp add: slide_volume_calls update_volume_def print_def)
qed

theorem volume_round_trip_witness:
  "\<not> destroyed example_row \<and> volume example_row \<noteq> float_div 75 100 \<and>
   binary64 (1/2) = 1/2 \<and> binary64 (1/2 * 100) = 1/2 * 100 \<and>
   volume_slider_state (update_volume (1/2) example_row) = 50 \<and>
   calls (row_of (slide_volume 75 example_row)) = [Write_volume (3/4)] \<and>
   float_div (volume_slider_state (update_volume (1/2) example_row)) 100 = 1/2"
proof -
  have ev: "binary64 (1/2) = 1/2" "binary64 50 = 50" "float_div 75 100 = 3/4"
    "float_mul (1/2) 100 = 50" "float_div 50 100 = 1/2"
    by (simp_all add: float_eval)
  have slider: "volume_slider_state (update_volume (1/2) example_row) = 50"
    by (simp add: update_volume_def print_def ev)
  show ?thesis
    using volume_round_trip [of "1/2" example_row 75]
    by (simp add: slider ev) (simp add: example_row_def)
qed

text \<open>
  C10 as stated fails. The binary64 value nearest to 0.007 is
  \<open>8070450532247929 / 2^60\<close>. A notification with that volume sets the slider to
  \<open>6305039478318695 / 2^53\<close> (0.7000000000000001), and a slide to that position on the
  row that holds the notified volume writes \<open>4035225266123965 / 2^59\<close>
  (0.007000000000000001), which is another volume.
\<close>

theorem volume_round_trip_misses:
  "binary64 (8070450532247929 / 1152921504606846976) =
     8070450532247929 / 1152921504606846976 \<and>
   volume_slider_state (update_volume (8070450532247929 / 1152921504606846976) example_row) =
     6305039478318695 / 9007199254740992 \<and>
   calls (row_of (slide_volume (6305039478318695 / 9007199254740992)
      (example_row\<lparr>volume := 8070450532247929 / 1152921504606846976\<rparr>))) =
     [Write_volume (4035225266123965 / 576460752303423488)] \<and>
   (4035225266123965 / 576460752303423488 :: real) \<noteq>
     8070450532247929 / 1152921504606846976"
proof -
  have ev: "binary64 (8070450532247929 / 1152921504606846976) =
      8070450532247929 / 1152921504606846976"
    "float_mul (8070450532247929 / 1152921504606846976) 100 =
      6305039478318695 / 9007199254740992"
    "float_div (6305039478318695 / 9007199254740992) 100 =
      4035225266123965 / 576460752303423488"
    by (simp_all add: float_eval)
  show ?thesis
    by (simp add: slide_volume_def update_volume_def row_defs example_row_def ev)
qed

end
